theory Spec2Isabelle
  imports Complex_Main "HOL-Library.Sublist"
begin

section \<open>The trading account: class StockTrader of main_pyplot_version.py\<close>

text \<open>
  Amounts of money, prices and rates are Python floats in the source. They are modelled
  as exact rationals: the arithmetic of the model is the arithmetic of the formulas,
  rounding is not modelled. Share counts and day indices are Python ints (\<open>int\<close>).
  Dates and stock codes are strings.
\<close>

datatype trade_type = Buy | Sell

text \<open>
  An entry of \<open>trade_history\<close>. The source stores a dict whose last key is
  \<open>total_cost\<close> for a purchase and \<open>total_income\<close> for a sale; the key that a
  dict does not have is \<open>None\<close> here.
\<close>

record trade =
  t_date :: string
  t_type :: trade_type
  t_stock_code :: string
  t_price :: rat
  t_amount :: int
  t_total_cost :: "rat option"
  t_total_income :: "rat option"

text \<open>An entry of \<open>daily_state\<close>, with the keys of the source's dict.\<close>

record snapshot =
  snap_date :: string
  snap_price :: rat
  snap_capital :: rat
  snap_shares :: int
  snap_portfolio_value :: rat
  snap_daily_return :: rat
  snap_cumulative_return :: rat

text \<open>The attributes that \<open>__init__\<close> sets.\<close>

record trader =
  initial_capital :: rat
  capital :: rat
  shares :: int
  commission_rate :: rat
  trade_history :: "trade list"
  daily_state :: "snapshot list"

definition init_trader :: "rat \<Rightarrow> rat \<Rightarrow> trader" where
  "init_trader initial_capital' commission_rate' =
     \<lparr>initial_capital = initial_capital', capital = initial_capital', shares = 0,
      commission_rate = commission_rate', trade_history = [], daily_state = []\<rparr>"

text \<open>
  The second component of what \<open>buy\<close> and \<open>sell\<close> return is a message. The two
  messages of failure are constant strings; the two of success are formatted from the
  amount, the price and the total, which the constructor carries.
\<close>

datatype message =
    Insufficient_Fund
  | Buy_Succeeded int rat rat
  | Insufficient_Shares
  | Sell_Succeeded int rat rat

text \<open>
  \<open>buy\<close> and \<open>sell\<close> return the pair of the source (flag, message) together with
  the object after the call.
\<close>

definition buy :: "trader \<Rightarrow> string \<Rightarrow> rat \<Rightarrow> int \<Rightarrow> string \<Rightarrow> (bool \<times> message) \<times> trader" where
  "buy self date price amount stock_code =
     (let total_cost = price * of_int amount * (1 + commission_rate self) in
      if total_cost > capital self then ((False, Insufficient_Fund), self)
      else ((True, Buy_Succeeded amount price total_cost),
            self\<lparr>capital := capital self - total_cost,
                 shares := shares self + amount,
                 trade_history := trade_history self @
                   [\<lparr>t_date = date, t_type = Buy, t_stock_code = stock_code, t_price = price,
                     t_amount = amount, t_total_cost = Some total_cost,
                     t_total_income = None\<rparr>]\<rparr>))"

definition sell :: "trader \<Rightarrow> string \<Rightarrow> rat \<Rightarrow> int \<Rightarrow> string \<Rightarrow> (bool \<times> message) \<times> trader" where
  "sell self date price amount stock_code =
     (if amount > shares self then ((False, Insufficient_Shares), self)
      else
        (let total_income = price * of_int amount * (1 - commission_rate self) in
         ((True, Sell_Succeeded amount price total_income),
          self\<lparr>capital := capital self + total_income,
               shares := shares self - amount,
               trade_history := trade_history self @
                 [\<lparr>t_date = date, t_type = Sell, t_stock_code = stock_code, t_price = price,
                   t_amount = amount, t_total_cost = None,
                   t_total_income = Some total_income\<rparr>]\<rparr>)))"

definition get_current_portfolio_value :: "trader \<Rightarrow> rat \<Rightarrow> rat" where
  "get_current_portfolio_value self current_price =
     capital self + of_int (shares self) * current_price"

definition has_buy_transaction :: "trader \<Rightarrow> bool" where
  "has_buy_transaction self = list_ex (\<lambda>t. t_type t = Buy) (trade_history self)"

text \<open>
  Python's \<open>/\<close> raises ZeroDivisionError on a zero divisor; HOL's \<open>a / 0\<close> is
  \<open>0\<close>, so the raise is written out.
\<close>

datatype py_error = ZeroDivisionError

definition truediv :: "rat \<Rightarrow> rat \<Rightarrow> py_error + rat" where
  "truediv a b = (if b = 0 then Inl ZeroDivisionError else Inr (a / b))"

text \<open>
  The two right-hand sides of \<open>record_daily_state\<close> that divide: the conditional
  expression bound to \<open>daily_return\<close> and the one bound to \<open>cumulative_return\<close>.
\<close>

definition daily_return_expr :: "trader \<Rightarrow> rat \<Rightarrow> py_error + rat" where
  "daily_return_expr self price =
     (if daily_state self = [] then Inr 0
      else (case truediv price (snap_price (last (daily_state self))) of
              Inl e \<Rightarrow> Inl e
            | Inr q \<Rightarrow> Inr ((q - 1) * 100)))"

definition cumulative_return_expr :: "trader \<Rightarrow> rat \<Rightarrow> py_error + rat" where
  "cumulative_return_expr self portfolio_value =
     (case truediv portfolio_value (initial_capital self) of
        Inl e \<Rightarrow> Inl e
      | Inr q \<Rightarrow> Inr ((q - 1) * 100))"

definition record_daily_state :: "trader \<Rightarrow> string \<Rightarrow> rat \<Rightarrow> py_error + ((rat \<times> rat) \<times> trader)" where
  "record_daily_state self date price =
     (let portfolio_value = capital self + of_int (shares self) * price in
      case daily_return_expr self price of
        Inl e \<Rightarrow> Inl e
      | Inr daily_return \<Rightarrow>
          (case cumulative_return_expr self portfolio_value of
             Inl e \<Rightarrow> Inl e
           | Inr cumulative_return \<Rightarrow>
               Inr ((daily_return, cumulative_return),
                    self\<lparr>daily_state := daily_state self @
                      [\<lparr>snap_date = date, snap_price = price, snap_capital = capital self,
                        snap_shares = shares self, snap_portfolio_value = portfolio_value,
                        snap_daily_return = daily_return,
                        snap_cumulative_return = cumulative_return\<rparr>]\<rparr>)))"

section \<open>Sequences of calls on one account\<close>

datatype ledger_op =
    Call_Buy string rat int string
  | Call_Sell string rat int string
  | Call_Record string rat

fun apply_op :: "trader \<Rightarrow> ledger_op \<Rightarrow> py_error + trader" where
  "apply_op self (Call_Buy date price amount stock_code) =
     Inr (snd (buy self date price amount stock_code))"
| "apply_op self (Call_Sell date price amount stock_code) =
     Inr (snd (sell self date price amount stock_code))"
| "apply_op self (Call_Record date price) =
     (case record_daily_state self date price of
        Inl e \<Rightarrow> Inl e
      | Inr r \<Rightarrow> Inr (snd r))"

text \<open>
  The calls are made one after the other; an exception ends the run, and the account is
  the one of the moment the exception was raised.
\<close>

fun run_ops :: "trader \<Rightarrow> ledger_op list \<Rightarrow> trader \<times> py_error option" where
  "run_ops self [] = (self, None)"
| "run_ops self (x # xs) =
     (case apply_op self x of
        Inl e \<Rightarrow> (self, Some e)
      | Inr self' \<Rightarrow> run_ops self' xs)"

fun record_dates :: "ledger_op list \<Rightarrow> string list" where
  "record_dates [] = []"
| "record_dates (Call_Record date price # xs) = date # record_dates xs"
| "record_dates (x # xs) = record_dates xs"

section \<open>The day cursor and the window of main\<close>

text \<open>
  \<open>main\<close> keeps the day index in \<open>st.session_state.current_day\<close> and, on every run
  of the script, computes from it the local \<open>current_day\<close>, \<open>start_idx\<close> and
  \<open>end_idx\<close>. \<open>total_days\<close> is the number of rows of the loaded data.
\<close>

definition init_current_day :: "int \<Rightarrow> int" where
  "init_current_day total_days = min 499 (total_days - 1)"

definition reset_current_day :: int where
  "reset_current_day = 499"





section \<open>Buying\<close>





section \<open>Selling\<close>



text \<open>
  C4. In every state of the account, a sale of more than the shares held is refused with
  the flag \<open>False\<close> and the message of insufficient shares, and the whole object (cash,
  shares, trade history, daily states) is as before.
\<close>

theorem sell_beyond_shares:
  assumes "shares self < amount"
  shows "sell self date price amount stock_code = ((False, Insufficient_Shares), self)"
  using assms by (simp add: sell_def)

theorem sell_beyond_shares_witness:
  "shares (init_trader 100000 (3 / 10000)) < 1
   \<and> sell (init_trader 100000 (3 / 10000)) ''2024-01-02'' 10 1 ''000001''
       = ((False, Insufficient_Shares), init_trader 100000 (3 / 10000))"
  using sell_beyond_shares [of "init_trader 100000 (3 / 10000)" 1 "''2024-01-02''" 10 "''000001''"]
  by (simp add: init_trader_def)

section \<open>Recording the state of a day\<close>



section \<open>The window\<close>



section \<open>Advancing the day\<close>




section \<open>The history of daily states\<close>

lemma apply_op_daily_state:
  assumes "apply_op self x = Inr self'"
  shows "prefix (daily_state self) (daily_state self')
       \<and> map snap_date (daily_state self') = map snap_date (daily_state self) @ record_dates [x]"
proof (cases x)
  case (Call_Buy date price amount stock_code)
  with assms show ?thesis by (auto simp add: buy_def Let_def)
next
  case (Call_Sell date price amount stock_code)
  with assms show ?thesis by (auto simp add: sell_def Let_def)
next
  case (Call_Record date price)
  with assms show ?thesis
    by (auto simp add: record_daily_state_def Let_def split: sum.splits)
qed

lemma record_dates_Cons: "record_dates (x # xs) = record_dates [x] @ record_dates xs"
  by (cases x) simp_all

lemma run_ops_prefix:
  "prefix (daily_state self) (daily_state (fst (run_ops self ops)))"
proof (induction ops arbitrary: self)
  case Nil
  show ?case by simp
next
  case (Cons x xs)
  show ?case
  proof (cases "apply_op self x")
    case (Inl e)
    then show ?thesis by simp
  next
    case (Inr self')
    have "prefix (daily_state self) (daily_state self')"
      using apply_op_daily_state [OF Inr] by simp
    moreover have "prefix (daily_state self') (daily_state (fst (run_ops self' xs)))"
      by (rule Cons.IH)
    ultimately show ?thesis using Inr by (auto intro: prefix_order.trans)
  qed
qed

lemma run_ops_dates:
  "snd (run_ops self ops) = None \<Longrightarrow>
   map snap_date (daily_state (fst (run_ops self ops))) =
     map snap_date (daily_state self) @ record_dates ops"
proof (induction ops arbitrary: self)
  case Nil
  show ?case by simp
next
  case (Cons x xs)
  show ?case
  proof (cases "apply_op self x")
    case (Inl e)
    with Cons.prems show ?thesis by simp
  next
    case (Inr self')
    have d: "map snap_date (daily_state self') =
        map snap_date (daily_state self) @ record_dates [x]"
      using apply_op_daily_state [OF Inr] by simp
    have "snd (run_ops self' xs) = None" using Cons.prems Inr by simp
    then have "map snap_date (daily_state (fst (run_ops self' xs))) =
        map snap_date (daily_state self') @ record_dates xs"
      by (rule Cons.IH)
    then show ?thesis using Inr d record_dates_Cons [of x xs] by simp
  qed
qed

text \<open>
  C8, amended. The history of daily states is append-only: after any sequence of calls
  of \<open>buy\<close>, \<open>sell\<close> and \<open>record_daily_state\<close> the history before the calls is a
  prefix of the history after them, so no recorded daily state is changed or removed.
  When no call raises, the dates added are exactly the dates passed to
  \<open>record_daily_state\<close>, one daily state for each call and in the order of the calls,
  whatever the dates are: the account compares no dates.
\<close>

theorem daily_state_append_only:
  "prefix (daily_state self) (daily_state (fst (run_ops self ops)))
   \<and> (snd (run_ops self ops) = None \<longrightarrow>
        map snap_date (daily_state (fst (run_ops self ops))) =
          map snap_date (daily_state self) @ record_dates ops)"
  using run_ops_prefix [of self ops] run_ops_dates [of self ops] by blast

theorem daily_state_append_only_witness:
  "snd (run_ops (init_trader 100000 (3 / 10000))
      [Call_Record ''2024-01-02'' 10, Call_Buy ''2024-01-02'' 10 1000 ''000001'',
       Call_Record ''2024-01-03'' 12]) = None
   \<and> map snap_date (daily_state (fst (run_ops (init_trader 100000 (3 / 10000))
      [Call_Record ''2024-01-02'' 10, Call_Buy ''2024-01-02'' 10 1000 ''000001'',
       Call_Record ''2024-01-03'' 12]))) = [''2024-01-02'', ''2024-01-03'']"
proof -
  have ok: "snd (run_ops (init_trader 100000 (3 / 10000))
      [Call_Record ''2024-01-02'' 10, Call_Buy ''2024-01-02'' 10 1000 ''000001'',
       Call_Record ''2024-01-03'' 12]) = None"
    by (simp add: init_trader_def record_daily_state_def daily_return_expr_def
        cumulative_return_expr_def truediv_def buy_def Let_def)
  show ?thesis
    using ok daily_state_append_only [of "init_trader 100000 (3 / 10000)"
      "[Call_Record ''2024-01-02'' 10, Call_Buy ''2024-01-02'' 10 1000 ''000001'',
        Call_Record ''2024-01-03'' 12]"]
    by (simp add: init_trader_def)
qed

text \<open>
  The claim as first stated, with at most one daily state for a date, fails: two calls
  of \<open>record_daily_state\<close> with the same date record two daily states of that date.
\<close>

theorem daily_state_same_date_twice:
  "map snap_date (daily_state (fst (run_ops (init_trader 100000 (3 / 10000))
      [Call_Record ''2024-01-02'' 10, Call_Record ''2024-01-02'' 10])))
     = [''2024-01-02'', ''2024-01-02'']
   \<and> \<not> distinct (map snap_date (daily_state (fst (run_ops (init_trader 100000 (3 / 10000))
      [Call_Record ''2024-01-02'' 10, Call_Record ''2024-01-02'' 10]))))"
  by (simp add: init_trader_def record_daily_state_def daily_return_expr_def
      cumulative_return_expr_def truediv_def Let_def)

section \<open>What the account does not check\<close>




section \<open>When recording the state of a day divides by zero\<close>



end
